theory Spec2Isabelle
  imports
    Complex_Main
    "HOL-Library.Multiset"
    "HOL-Library.Sublist"
    "HOL-Library.Char_ord"
    "HOL-Library.List_Lexorder"
    "HOL-Library.Product_Lexorder"
    "HOL-Library.Log_Nat"
begin

section \<open>Swimmer log: data model\<close>

text \<open>
  The program is \<^verbatim>\<open>swimmer.py\<close>, a Streamlit application over a spreadsheet with the
  worksheets "Sessions", "Targets" and "CSSTests".

  Conventions of the embedding.
  \<^item> A calendar date is its proleptic Gregorian ordinal (\<^verbatim>\<open>date.toordinal()\<close>, day 1 is
    Monday 0001-01-01), an \<open>int\<close>. A pandas timestamp at midnight is the ordinal of its day.
    The text form \<^verbatim>\<open>str(date)\<close> written to the sheet and read back by
    \<^verbatim>\<open>pd.to_datetime\<close> is not modelled: a stored row holds the date itself.
  \<^item> Python and pandas floats are modelled by exact reals in the pages and in the weekly
    frame \<open>weekly_df\<close>: there rounding is not modelled. The binary64 arithmetic of the
    distance totals, where rounding decides a property, is modelled in a section of its
    own. A float column that can hold NaN is a \<open>real option\<close>, with \<open>None\<close> for NaN.
  \<^item> A worksheet is the list of its rows in append order; \<^verbatim>\<open>append_row\<close> adds one row
    at the end. Network failures of the spreadsheet client are not modelled.
  \<^item> What a page shows through \<^verbatim>\<open>st.success\<close> and \<^verbatim>\<open>st.error\<close> is returned
    as a \<open>feedback\<close> value.
\<close>

datatype environment = pool | open_water

text \<open>The dictionary \<^verbatim>\<open>session_data\<close> of \<^verbatim>\<open>log_session_page\<close>, one row of "Sessions"
  (the key "notes" is \<open>session_notes\<close> here).\<close>

record session_data =
  date :: int
  environment :: environment
  distance_m :: int
  total_time_min :: real
  moving_time_min :: "real option"
  rest_estimate_min :: real
  sets_text :: string
  css_pace :: string
  avg_pace :: string
  rpe :: int
  session_notes :: string
  team :: string
  swimmer :: string

text \<open>The dictionary \<^verbatim>\<open>test_data\<close> of \<^verbatim>\<open>css_test_page\<close>, one row of "CSSTests"
  (keys "date" and "swimmer" carry the prefix \<open>test\<close> here).\<close>

record test_data =
  test_date :: int
  test_swimmer :: string
  time_200_s :: real
  time_400_s :: real
  css_s_per_100 :: real

text \<open>The dictionary \<^verbatim>\<open>target_data\<close> of \<^verbatim>\<open>targets_page\<close>, one row of "Targets".\<close>

record target_data =
  week_start :: int
  target_swimmer :: string
  km_target :: real

record store =
  sessions :: "session_data list"
  targets :: "target_data list"
  css_tests :: "test_data list"

definition save_session :: "session_data \<Rightarrow> store \<Rightarrow> store" where
  "save_session row st = st\<lparr>sessions := sessions st @ [row]\<rparr>"

definition save_target :: "target_data \<Rightarrow> store \<Rightarrow> store" where
  "save_target row st = st\<lparr>targets := targets st @ [row]\<rparr>"

definition save_css_test :: "test_data \<Rightarrow> store \<Rightarrow> store" where
  "save_css_test row st = st\<lparr>css_tests := css_tests st @ [row]\<rparr>"

definition load_sessions :: "store \<Rightarrow> session_data list" where
  "load_sessions st = sessions st"

text \<open>
  \<open>st_success_css_pace p\<close> stands for \<^verbatim>\<open>st.success(f"CSS Pace: {css_pace:.2f} s/100m")\<close>;
  the two-decimal rendering of the number is not modelled.
\<close>

datatype feedback =
    st_success string
  | st_success_css_pace real
  | st_error string

section \<open>CSS test page\<close>

text \<open>
  \<^verbatim>\<open>css_test_page\<close>: the arguments are the values of the form's widgets and the
  state of the submit button; the result is the message shown (none when the form was
  not submitted) and the store afterwards.
\<close>

definition css_test_page ::
  "int \<Rightarrow> string \<Rightarrow> real \<Rightarrow> real \<Rightarrow> bool \<Rightarrow> store \<Rightarrow> feedback option \<times> store" where
  "css_test_page date_v swimmer_v time_200 time_400 submitted st =
     (if submitted then
        (if time_200 > 0 \<and> time_400 > 0 then
           (let css_pace_v = (time_400 - time_200) / 2;
                test_row = \<lparr>test_date = date_v, test_swimmer = swimmer_v,
                            time_200_s = time_200, time_400_s = time_400,
                            css_s_per_100 = css_pace_v\<rparr>
            in (Some (st_success_css_pace css_pace_v), save_css_test test_row st))
         else (Some (st_error ''Please enter valid times.''), st))
      else (None, st))"

text \<open>\<^verbatim>\<open>targets_page\<close>.\<close>

definition targets_page ::
  "int \<Rightarrow> string \<Rightarrow> real \<Rightarrow> bool \<Rightarrow> store \<Rightarrow> feedback option \<times> store" where
  "targets_page week_start_v swimmer_v km_target_v submitted st =
     (if submitted then
        (Some (st_success ''Target set!''),
         save_target \<lparr>week_start = week_start_v, target_swimmer = swimmer_v,
                      km_target = km_target_v\<rparr> st)
      else (None, st))"

section \<open>Log session page\<close>

text \<open>The values of the widgets of the form \<^verbatim>\<open>session_form\<close> (suffix \<open>in\<close>).\<close>

record session_form =
  date_str :: string
  environment_in :: environment
  distance_m_in :: int
  total_time_min_in :: real
  moving_time_min_in :: real
  rest_estimate_min_in :: real
  sets_text_in :: string
  css_pace_in :: string
  avg_pace_in :: string
  rpe_in :: int
  notes_in :: string
  team_in :: string
  swimmer_in :: string

text \<open>
  \<^verbatim>\<open>log_session_page\<close>. The library call
  \<^verbatim>\<open>datetime.datetime.strptime(date_str, "%d-%b-%y").date()\<close> is the parameter
  \<open>strptime\<close>: \<open>None\<close> is its \<^verbatim>\<open>ValueError\<close>, \<open>Some d\<close> the parsed date.
\<close>

definition log_session_page ::
  "(string \<Rightarrow> int option) \<Rightarrow> session_form \<Rightarrow> bool \<Rightarrow> store \<Rightarrow> feedback option \<times> store" where
  "log_session_page strptime f submitted st =
     (if submitted then
        (case strptime (date_str f) of
           None \<Rightarrow>
             (Some (st_error ''Invalid date format. Please use dd-mmm-yy (e.g., 04-Nov-25)''), st)
         | Some d \<Rightarrow>
             (let row = \<lparr>date = d,
                         environment = environment_in f,
                         distance_m = distance_m_in f,
                         total_time_min = total_time_min_in f,
                         moving_time_min =
                           (if moving_time_min_in f > 0 then Some (moving_time_min_in f) else None),
                         rest_estimate_min = rest_estimate_min_in f,
                         sets_text = sets_text_in f,
                         css_pace = css_pace_in f,
                         avg_pace = avg_pace_in f,
                         rpe = rpe_in f,
                         session_notes = notes_in f,
                         team = team_in f,
                         swimmer = swimmer_in f\<rparr>
              in (Some (st_success ''Session logged successfully!''), save_session row st)))
      else (None, st))"

section \<open>Dashboard: weekly load per swimmer\<close>

subsection \<open>Dates and weeks\<close>

text \<open>\<^verbatim>\<open>date.weekday()\<close>: 0 is Monday, 6 is Sunday.\<close>

definition weekday :: "int \<Rightarrow> nat" where
  "weekday d = nat ((d + 6) mod 7)"

text \<open>
  \<^verbatim>\<open>.to_period('W')\<close> followed by \<^verbatim>\<open>.start_time\<close>: pandas' weekly period is
  \<^verbatim>\<open>W-SUN\<close>, the seven days that end on a Sunday, and its start time is the midnight
  that begins its Monday. The result is the ordinal of that Monday.
\<close>

definition to_period_W_start_time :: "int \<Rightarrow> int" where
  "to_period_W_start_time d = d - int (weekday d)"

subsection \<open>Columns added to the sessions frame\<close>

definition distance_km :: "session_data \<Rightarrow> real" where
  "distance_km r = real_of_int (distance_m r) / 1000"

definition load :: "session_data \<Rightarrow> real" where
  "load r = distance_km r * real_of_int (rpe r)"

definition week :: "session_data \<Rightarrow> int" where
  "week r = to_period_W_start_time (date r)"

subsection \<open>Group by week and swimmer\<close>

text \<open>
  The aggregations of pandas on one group. \<^verbatim>\<open>mean\<close> of no value is NaN. \<^verbatim>\<open>std\<close> has
  \<^verbatim>\<open>ddof=1\<close>: the sum of squared deviations over \<open>n - 1\<close>, and NaN for fewer than two
  values.
\<close>

definition mean :: "real list \<Rightarrow> real option" where
  "mean xs = (if xs = [] then None else Some (sum_list xs / real (length xs)))"

definition std :: "real list \<Rightarrow> real option" where
  "std xs =
     (if length xs < 2 then None
      else (let m = sum_list xs / real (length xs)
            in Some (sqrt (sum_list (map (\<lambda>x. (x - m)\<^sup>2) xs) / real (length xs - 1)))))"

text \<open>\<^verbatim>\<open>.replace(0, 1)\<close> on a float column: a zero becomes one, NaN stays NaN.\<close>

definition replace_0_1 :: "real option \<Rightarrow> real option" where
  "replace_0_1 v = (case v of None \<Rightarrow> None | Some x \<Rightarrow> if x = 0 then Some 1 else Some x)"

text \<open>
  Float division and multiplication of two columns: NaN when an operand is NaN. A quotient
  by zero is not a real number (pandas gives an infinity or NaN) and is \<open>None\<close> here too.
\<close>

definition fdiv :: "real option \<Rightarrow> real option \<Rightarrow> real option" where
  "fdiv a b =
     (case (a, b) of
        (Some x, Some y) \<Rightarrow> if y = 0 then None else Some (x / y)
      | _ \<Rightarrow> None)"

definition fmul :: "real option \<Rightarrow> real \<Rightarrow> real option" where
  "fmul a y = (case a of None \<Rightarrow> None | Some x \<Rightarrow> Some (x * y))"

text \<open>One row of \<^verbatim>\<open>weekly_df\<close> (columns "week" and "swimmer" carry the prefix \<open>wk\<close>).\<close>

record weekly_row =
  wk_week :: int
  wk_swimmer :: string
  total_distance_km :: real
  total_load :: real
  mean_rpe :: "real option"
  std_rpe :: "real option"
  monotony :: "real option"
  strain :: "real option"

definition group_key :: "session_data \<Rightarrow> int \<times> string" where
  "group_key r = (week r, swimmer r)"

text \<open>
  The row of one group \<open>g\<close> with key \<open>k\<close>: the four aggregates of \<^verbatim>\<open>.agg\<close>, then the
  columns \<^verbatim>\<open>monotony\<close> and \<^verbatim>\<open>strain\<close>.
\<close>

definition weekly_row_of :: "int \<times> string \<Rightarrow> session_data list \<Rightarrow> weekly_row" where
  "weekly_row_of k g =
     (let dist_v = sum_list (map distance_km g);
          load_v = sum_list (map load g);
          mean_v = mean (map (\<lambda>r. real_of_int (rpe r)) g);
          std_v = std (map (\<lambda>r. real_of_int (rpe r)) g);
          monotony_v = fdiv mean_v (replace_0_1 std_v)
      in \<lparr>wk_week = fst k, wk_swimmer = snd k,
          total_distance_km = dist_v, total_load = load_v,
          mean_rpe = mean_v, std_rpe = std_v,
          monotony = monotony_v, strain = fmul monotony_v load_v\<rparr>)"

text \<open>
  \<^verbatim>\<open>df.groupby(['week', 'swimmer']).agg(...).reset_index()\<close>: one row for each key
  that occurs, the keys in ascending order (\<^verbatim>\<open>sort=True\<close> is the default of
  \<^verbatim>\<open>groupby\<close>), each row computed from the rows of the frame with that key. Every
  row of the frame has a week and a swimmer; rows with a missing key, which pandas would
  drop, do not occur in the model.
\<close>

definition weekly_df :: "session_data list \<Rightarrow> weekly_row list" where
  "weekly_df df =
     map (\<lambda>k. weekly_row_of k (filter (\<lambda>r. group_key r = k) df))
         (sort (remdups (map group_key df)))"

subsection \<open>Current week and last week\<close>

definition current_week :: "int \<Rightarrow> int" where
  "current_week now = to_period_W_start_time now"

definition last_week :: "int \<Rightarrow> int" where
  "last_week now = current_week now - 7"

definition current_week_df :: "int \<Rightarrow> weekly_row list \<Rightarrow> weekly_row list" where
  "current_week_df now wdf = filter (\<lambda>w. wk_week w = current_week now) wdf"

definition last_week_df :: "int \<Rightarrow> weekly_row list \<Rightarrow> weekly_row list" where
  "last_week_df now wdf = filter (\<lambda>w. wk_week w = last_week now) wdf"

subsection \<open>Next training session\<close>

datatype py_error = KeyError

text \<open>The dictionary \<^verbatim>\<open>training_schedule\<close>, from \<^verbatim>\<open>weekday()\<close> to a description.\<close>

definition training_schedule :: "nat \<rightharpoonup> string" where
  "training_schedule = map_of
     [(0, ''Monday - All swimmers, 5:45pm @ Claremont Pool''),
      (1, ''Tuesday - No training''),
      (2, ''Wednesday - Masters session, 6:00pm @ Scarborough Pool''),
      (3, ''Thursday - No training''),
      (4, ''Friday - Technique session, 5:30pm @ Bold Park''),
      (5, ''Saturday - Long swim, 7:00am @ Claremont Pool''),
      (6, ''Sunday - Recovery swim, 8:00am @ Claremont Pool'')]"

text \<open>Python's \<^verbatim>\<open>sub in s\<close> on strings.\<close>

fun str_contains :: "string \<Rightarrow> string \<Rightarrow> bool" where
  "str_contains sub [] = (sub = [])"
| "str_contains sub (c # cs) = (prefix sub (c # cs) \<or> str_contains sub cs)"

text \<open>
  Python's \<^verbatim>\<open>s.replace(old, new)\<close> for a non-empty \<open>old\<close>: every occurrence, found
  from the left and not overlapping, is replaced. (For an empty \<open>old\<close> Python inserts
  \<open>new\<close> around every character; the program never does that, and the model returns
  \<open>s\<close>.)
\<close>

function str_replace :: "string \<Rightarrow> string \<Rightarrow> string \<Rightarrow> string" where
  "str_replace old new [] = []"
| "str_replace old new (c # cs) =
     (if old \<noteq> [] \<and> prefix old (c # cs)
      then new @ str_replace old new (drop (length old) (c # cs))
      else c # str_replace old new cs)"
  by pat_completeness auto
termination
  by (relation "measure (\<lambda>(old, new, s). length s)") (auto simp: length_greater_0_conv)

text \<open>\<^verbatim>\<open>strftime("%A")\<close>: the English name of the day of the week.\<close>

definition strftime_A :: "int \<Rightarrow> string" where
  "strftime_A d =
     [''Monday'', ''Tuesday'', ''Wednesday'', ''Thursday'', ''Friday'', ''Saturday'', ''Sunday'']
       ! weekday d"

text \<open>
  The loop \<^verbatim>\<open>while days_ahead < 7\<close>, from the state \<open>(next_day, days_ahead)\<close>: it
  leaves through \<^verbatim>\<open>break\<close> at the first day whose description does not contain
  "No training", or through its condition with \<open>days_ahead = 7\<close>. The result is the
  final \<open>(next_day, days_ahead)\<close>; a key missing from the dictionary raises.
\<close>

function find_next_training_day ::
  "(nat \<rightharpoonup> string) \<Rightarrow> nat \<Rightarrow> nat \<Rightarrow> nat \<Rightarrow> py_error + (nat \<times> nat)" where
  "find_next_training_day sched current_day next_day days_ahead =
     (if days_ahead < 7 then
        (let next_day' = (current_day + days_ahead) mod 7
         in case sched next_day' of
              None \<Rightarrow> Inl KeyError
            | Some desc \<Rightarrow>
                if \<not> str_contains ''No training'' desc then Inr (next_day', days_ahead)
                else find_next_training_day sched current_day next_day' (days_ahead + 1))
      else Inr (next_day, days_ahead))"
  by pat_completeness auto
termination
  by (relation "measure (\<lambda>(sched, current_day, next_day, days_ahead). 7 - days_ahead)") auto

declare find_next_training_day.simps [simp del]

text \<open>
  The expression assigned to \<^verbatim>\<open>session_info\<close>: in the description \<open>desc\<close> every
  English day name is replaced by \<open>day_name\<close>, Monday first and Sunday last.
\<close>

definition session_info :: "string \<Rightarrow> string \<Rightarrow> string" where
  "session_info desc day_name =
     str_replace ''Sunday'' day_name
       (str_replace ''Saturday'' day_name
         (str_replace ''Friday'' day_name
           (str_replace ''Thursday'' day_name
             (str_replace ''Wednesday'' day_name
               (str_replace ''Tuesday'' day_name
                 (str_replace ''Monday'' day_name desc))))))"

text \<open>
  The third column of the dashboard for a schedule \<open>sched\<close> and the date \<open>today\<close>: the
  date \<^verbatim>\<open>next_date\<close> and the text \<^verbatim>\<open>session_info\<close> that are written. (The
  rendering \<^verbatim>\<open>strftime('%a %d-%b')\<close> of the date is not modelled.)
\<close>

definition next_training_session :: "(nat \<rightharpoonup> string) \<Rightarrow> int \<Rightarrow> py_error + (int \<times> string)" where
  "next_training_session sched today =
     (let current_day = weekday today
      in case find_next_training_day sched current_day current_day 0 of
           Inl e \<Rightarrow> Inl e
         | Inr (next_day, days_ahead) \<Rightarrow>
             (let next_date = today + int days_ahead;
                  day_name = strftime_A next_date
              in case sched next_day of
                   None \<Rightarrow> Inl KeyError
                 | Some desc \<Rightarrow> Inr (next_date, session_info desc day_name)))"

subsection \<open>The page\<close>

text \<open>
  What \<^verbatim>\<open>dashboard_page\<close> computes for the store and the current date: nothing when
  no session is logged ("No sessions logged yet."), otherwise the weekly frame, its rows
  of the current and of the last week, and the next training session. The charts drawn
  from these are not modelled.
\<close>

record dashboard =
  weekly :: "weekly_row list"
  this_week :: "weekly_row list"
  previous_week :: "weekly_row list"
  next_session :: "py_error + (int \<times> string)"

definition dashboard_page :: "store \<Rightarrow> int \<Rightarrow> dashboard option" where
  "dashboard_page st now =
     (let sessions_df = load_sessions st
      in if sessions_df = [] then None
         else (let wdf = weekly_df sessions_df
               in Some \<lparr>weekly = wdf,
                        this_week = current_week_df now wdf,
                        previous_week = last_week_df now wdf,
                        next_session = next_training_session training_schedule now\<rparr>))"

section \<open>Distance totals in binary64\<close>

text \<open>
  The columns of the frame are \<^verbatim>\<open>float64\<close>. A binary64 number is modelled by the real
  it denotes, and every operation rounds its exact result to the nearest number with a
  significand of 53 bits, a tie going to the even significand. The exponent range is not
  modelled (no overflow, no subnormal numbers): distances in kilometres are far from it.
\<close>

definition round_half_even :: "real \<Rightarrow> int" where
  "round_half_even x =
     (let f = \<lfloor>x\<rfloor>; r = x - of_int f
      in if r < 1 / 2 then f else if 1 / 2 < r then f + 1 else if even f then f else f + 1)"

text \<open>The exponent \<open>e\<close> with \<open>2 ^ e \<le> \<bar>x\<bar> < 2 ^ (e + 1)\<close>, for \<open>x \<noteq> 0\<close>.\<close>

definition binade :: "real \<Rightarrow> int" where
  "binade x =
     (if 1 \<le> \<bar>x\<bar> then bitlen \<lfloor>\<bar>x\<bar>\<rfloor> - 1 else - bitlen (\<lceil>1 / \<bar>x\<bar>\<rceil> - 1))"

definition pow2 :: "int \<Rightarrow> real" where
  "pow2 k = (if 0 \<le> k then 2 ^ nat k else 1 / 2 ^ nat (- k))"

definition b64 :: "real \<Rightarrow> real" where
  "b64 x =
     (if x = 0 then 0
      else (let u = pow2 (binade x - 52) in of_int (round_half_even (x / u)) * u))"

text \<open>
  \<^verbatim>\<open>df['distance_m'] / 1000\<close>: the integer column is converted to \<^verbatim>\<open>float64\<close> and
  divided by 1000.
\<close>

definition distance_km_f64 :: "session_data \<Rightarrow> real" where
  "distance_km_f64 r = b64 (b64 (real_of_int (distance_m r)) / 1000)"

text \<open>
  The aggregation \<^verbatim>\<open>'sum'\<close> of \<^verbatim>\<open>groupby\<close> on the values of one group, in the order
  of the rows: pandas adds each value to the running sum together with a compensation
  term (Kahan summation); both start at zero.
\<close>

fun group_sum_loop :: "real \<Rightarrow> real \<Rightarrow> real list \<Rightarrow> real" where
  "group_sum_loop sumx compensation [] = sumx"
| "group_sum_loop sumx compensation (val # vals) =
     (let y = b64 (val - compensation);
          t = b64 (sumx + y);
          compensation' = b64 (b64 (t - sumx) - y)
      in group_sum_loop t compensation' vals)"

definition group_sum :: "real list \<Rightarrow> real" where
  "group_sum vals = group_sum_loop 0 0 vals"

text \<open>The same sum without the compensation term, for comparison.\<close>

definition plain_sum :: "real list \<Rightarrow> real" where
  "plain_sum vals = foldl (\<lambda>sumx val. b64 (sumx + val)) 0 vals"

text \<open>
  The key columns and the column \<^verbatim>\<open>total_distance_km\<close> of \<^verbatim>\<open>weekly_df\<close> in
  binary64: the groups and their order are those of \<open>weekly_df\<close>.
\<close>

definition total_distance_km_f64 :: "session_data list \<Rightarrow> ((int \<times> string) \<times> real) list" where
  "total_distance_km_f64 df =
     map (\<lambda>k. (k, group_sum (map distance_km_f64 (filter (\<lambda>r. group_key r = k) df))))
         (sort (remdups (map group_key df)))"

text \<open>
  Session lists whose distances are whole kilometres, not negative, with a total of at
  most \<open>2 ^ 53\<close> metres.
\<close>

definition whole_km :: "session_data list \<Rightarrow> bool" where
  "whole_km df \<longleftrightarrow>
     list_all (\<lambda>r. 0 \<le> distance_m r \<and> distance_m r mod 1000 = 0) df
     \<and> sum_list (map distance_m df) \<le> 2 ^ 53"

section \<open>Example data\<close>

text \<open>Concrete inputs and expected values used where the properties below are instantiated.\<close>

definition empty_store :: store where
  "empty_store = \<lparr>sessions = [], targets = [], css_tests = []\<rparr>"

definition example_strptime :: "string \<Rightarrow> int option" where
  "example_strptime s = (if s = ''04-Nov-25'' then Some 739559 else None)"

definition example_form :: session_form where
  "example_form =
     \<lparr>date_str = ''04-Nov-25'', environment_in = pool, distance_m_in = 1000,
      total_time_min_in = 30, moving_time_min_in = 0, rest_estimate_min_in = 5,
      sets_text_in = ''8x100'', css_pace_in = '''', avg_pace_in = '''', rpe_in = 4,
      notes_in = '''', team_in = '''', swimmer_in = ''BVH''\<rparr>"

text \<open>Tuesday 4 November 2025 is day 739559; its week starts on Monday, day 739558.\<close>

definition example_session :: session_data where
  "example_session =
     \<lparr>date = 739559, environment = pool, distance_m = 1000, total_time_min = 30,
      moving_time_min = None, rest_estimate_min = 5, sets_text = ''10x100'',
      css_pace = '''', avg_pace = '''', rpe = 4, session_notes = '''', team = '''',
      swimmer = ''A''\<rparr>"

definition example_sessions :: "session_data list" where
  "example_sessions =
     [example_session, example_session\<lparr>date := 739561, distance_m := 2000, rpe := 6\<rparr>]"

definition example_weekly_row :: weekly_row where
  "example_weekly_row =
     \<lparr>wk_week = 739558, wk_swimmer = ''A'', total_distance_km = 3, total_load = 16,
      mean_rpe = Some 5, std_rpe = Some (sqrt 2), monotony = Some (5 / sqrt 2),
      strain = Some (5 / sqrt 2 * 16)\<rparr>"

text \<open>Sessions of swimmer A in the week of 3 November 2025 with the given distances.\<close>

definition session_of_distance :: "int \<Rightarrow> session_data" where
  "session_of_distance m = example_session\<lparr>distance_m := m\<rparr>"

definition sessions_100_200 :: "session_data list" where
  "sessions_100_200 = [session_of_distance 100, session_of_distance 200]"

definition sessions_600_600_100 :: "session_data list" where
  "sessions_600_600_100 =
     [session_of_distance 600, session_of_distance 600, session_of_distance 100]"

definition sessions_100_600_600 :: "session_data list" where
  "sessions_100_600_600 =
     [session_of_distance 100, session_of_distance 600, session_of_distance 600]"

text \<open>A schedule with every day marked "No training", and the test for such schedules.\<close>

definition no_training_schedule :: "nat \<rightharpoonup> string" where
  "no_training_schedule = map_of
     [(0, ''Monday - No training''),
      (1, ''Tuesday - No training''),
      (2, ''Wednesday - No training''),
      (3, ''Thursday - No training''),
      (4, ''Friday - No training''),
      (5, ''Saturday - No training''),
      (6, ''Sunday - No training'')]"

definition all_no_training :: "(nat \<rightharpoonup> string) \<Rightarrow> bool" where
  "all_no_training sched =
     list_all (\<lambda>d. case sched d of None \<Rightarrow> False
                               | Some desc \<Rightarrow> str_contains ''No training'' desc) [0..<7]"

section \<open>Properties of the CSS test page\<close>

text \<open>
  C2. For strictly positive times, submitting the CSS form reports the pace
  \<open>(t400 - t200) / 2\<close> and stores it as \<open>css_s_per_100\<close>; for 60 s and 130 s the pace is
  35 (the instance below).
\<close>

theorem css_test_page_positive_times:
  assumes "0 < t200" and "0 < t400"
  shows "css_test_page d sw t200 t400 True st =
           (Some (st_success_css_pace ((t400 - t200) / 2)),
            save_css_test \<lparr>test_date = d, test_swimmer = sw, time_200_s = t200,
                            time_400_s = t400, css_s_per_100 = (t400 - t200) / 2\<rparr> st)"
  using assms by (simp add: css_test_page_def Let_def)

theorem css_test_page_positive_times_witness:
  "(0::real) < 60 \<and> (0::real) < 130 \<and>
   css_test_page 739559 ''BVH'' 60 130 True empty_store =
     (Some (st_success_css_pace 35),
      save_css_test \<lparr>test_date = 739559, test_swimmer = ''BVH'', time_200_s = 60,
                      time_400_s = 130, css_s_per_100 = 35\<rparr> empty_store)"
  using css_test_page_positive_times [of 60 130 739559 "''BVH''" empty_store] by simp

text \<open>
  C3. When one of the two times is zero or negative, submitting the CSS form shows the
  error message and leaves the store as it was: nothing is computed, nothing is written.
\<close>

theorem css_test_page_rejects_non_positive:
  assumes "t200 \<le> 0 \<or> t400 \<le> 0"
  shows "css_test_page d sw t200 t400 True st = (Some (st_error ''Please enter valid times.''), st)"
  using assms by (auto simp add: css_test_page_def)

theorem css_test_page_rejects_non_positive_witness:
  "((0::real) \<le> 0 \<or> (130::real) \<le> 0) \<and>
   css_test_page 739559 ''BVH'' 0 130 True empty_store =
     (Some (st_error ''Please enter valid times.''), empty_store)"
  using css_test_page_rejects_non_positive [of 0 130 739559 "''BVH''" empty_store] by simp

text \<open>
  C10. When both times are positive and the 400 time is below the 200 time, the form is
  not refused: the negative pace \<open>(t400 - t200) / 2\<close> is reported as a success and a
  row with that negative \<open>css_s_per_100\<close> is appended to "CSSTests".
\<close>

theorem css_test_page_negative_pace:
  assumes "0 < t400" and "t400 < t200"
  shows "css_test_page d sw t200 t400 True st =
           (Some (st_success_css_pace ((t400 - t200) / 2)),
            st\<lparr>css_tests := css_tests st @
                 [\<lparr>test_date = d, test_swimmer = sw, time_200_s = t200,
                   time_400_s = t400, css_s_per_100 = (t400 - t200) / 2\<rparr>]\<rparr>)
         \<and> (t400 - t200) / 2 < 0"
  using assms by (simp add: css_test_page_def save_css_test_def Let_def)

theorem css_test_page_negative_pace_witness:
  "(0::real) < 60 \<and> (60::real) < 130 \<and>
   css_test_page 739559 ''BVH'' 130 60 True empty_store =
     (Some (st_success_css_pace (- 35)),
      empty_store\<lparr>css_tests :=
        [\<lparr>test_date = 739559, test_swimmer = ''BVH'', time_200_s = 130,
          time_400_s = 60, css_s_per_100 = - 35\<rparr>]\<rparr>)"
  using css_test_page_negative_pace [of 60 130 739559 "''BVH''" empty_store]
  by (simp add: empty_store_def)

section \<open>Properties of the log session page\<close>

text \<open>
  C9. When the date text does not parse, submitting the session form shows the error
  message and leaves the store as it was; when it parses to \<open>d\<close>, the success message is
  shown and exactly one row, dated \<open>d\<close>, is appended to "Sessions", the other worksheets
  staying as they were.
\<close>

theorem log_session_page_date_check:
  "(strptime (date_str f) = None \<longrightarrow>
      log_session_page strptime f True st =
        (Some (st_error ''Invalid date format. Please use dd-mmm-yy (e.g., 04-Nov-25)''), st))
   \<and> (strptime (date_str f) = Some d \<longrightarrow>
        (\<exists>row. log_session_page strptime f True st =
                 (Some (st_success ''Session logged successfully!''),
                  st\<lparr>sessions := sessions st @ [row]\<rparr>)
               \<and> date row = d \<and> swimmer row = swimmer_in f
               \<and> distance_m row = distance_m_in f \<and> rpe row = rpe_in f))"
proof (intro conjI impI)
  assume "strptime (date_str f) = None"
  then show "log_session_page strptime f True st =
        (Some (st_error ''Invalid date format. Please use dd-mmm-yy (e.g., 04-Nov-25)''), st)"
    by (simp add: log_session_page_def)
next
  assume p: "strptime (date_str f) = Some d"
  define row where "row = \<lparr>date = d,
                         environment = environment_in f,
                         distance_m = distance_m_in f,
                         total_time_min = total_time_min_in f,
                         moving_time_min =
                           (if moving_time_min_in f > 0 then Some (moving_time_min_in f) else None),
                         rest_estimate_min = rest_estimate_min_in f,
                         sets_text = sets_text_in f,
                         css_pace = css_pace_in f,
                         avg_pace = avg_pace_in f,
                         rpe = rpe_in f,
                         session_notes = notes_in f,
                         team = team_in f,
                         swimmer = swimmer_in f\<rparr>"
  have "log_session_page strptime f True st =
          (Some (st_success ''Session logged successfully!''), st\<lparr>sessions := sessions st @ [row]\<rparr>)"
    unfolding log_session_page_def save_session_def row_def Let_def using p by simp
  moreover have "date row = d \<and> swimmer row = swimmer_in f
               \<and> distance_m row = distance_m_in f \<and> rpe row = rpe_in f"
    by (simp add: row_def)
  ultimately show "\<exists>row. log_session_page strptime f True st =
                 (Some (st_success ''Session logged successfully!''),
                  st\<lparr>sessions := sessions st @ [row]\<rparr>)
               \<and> date row = d \<and> swimmer row = swimmer_in f
               \<and> distance_m row = distance_m_in f \<and> rpe row = rpe_in f"
    by blast
qed

theorem log_session_page_date_check_witness:
  "example_strptime (date_str (example_form\<lparr>date_str := ''4 November''\<rparr>)) = None
   \<and> log_session_page example_strptime (example_form\<lparr>date_str := ''4 November''\<rparr>) True empty_store =
        (Some (st_error ''Invalid date format. Please use dd-mmm-yy (e.g., 04-Nov-25)''), empty_store)
   \<and> example_strptime (date_str example_form) = Some 739559
   \<and> (\<exists>row. log_session_page example_strptime example_form True empty_store =
                 (Some (st_success ''Session logged successfully!''),
                  empty_store\<lparr>sessions := sessions empty_store @ [row]\<rparr>)
               \<and> date row = 739559 \<and> swimmer row = swimmer_in example_form
               \<and> distance_m row = distance_m_in example_form \<and> rpe row = rpe_in example_form)"
proof -
  have a: "example_strptime (date_str (example_form\<lparr>date_str := ''4 November''\<rparr>)) = None"
    by (simp add: example_strptime_def)
  have b: "example_strptime (date_str example_form) = Some 739559"
    by (simp add: example_strptime_def example_form_def)
  from a b
    log_session_page_date_check
      [of example_strptime "example_form\<lparr>date_str := ''4 November''\<rparr>" empty_store 739559]
    log_session_page_date_check [of example_strptime example_form empty_store 739559]
  show ?thesis by blast
qed

section \<open>Properties of the weekly aggregation\<close>

subsection \<open>Weeks\<close>

lemma int_weekday: "int (weekday d) = (d + 6) mod 7"
  by (simp add: weekday_def)

lemma weekday_less_7: "weekday d < 7"
  unfolding weekday_def by (simp add: nat_less_iff)

lemma start_time_eq: "to_period_W_start_time d = 7 * ((d + 6) div 7) - 6"
  unfolding to_period_W_start_time_def int_weekday
  by (simp add: algebra_simps minus_mod_eq_mult_div [symmetric])

lemma weekday_start_time: "weekday (to_period_W_start_time d) = 0"
  unfolding start_time_eq weekday_def by simp

lemma start_time_bounds:
  "to_period_W_start_time d \<le> d \<and> d < to_period_W_start_time d + 7"
proof -
  have "0 \<le> (d + 6) mod 7" and "(d + 6) mod 7 < 7" by simp_all
  then show ?thesis
    unfolding to_period_W_start_time_def int_weekday by linarith
qed

lemma start_time_shift: "to_period_W_start_time (d - 7) = to_period_W_start_time d - 7"
proof -
  have "(d - 7 + 6) div 7 = (d + 6) div 7 - 1"
    using div_add_self2 [of 7 "d - 7 + 6"] by simp
  then show ?thesis unfolding start_time_eq by simp
qed

lemma weekday_plus_7: "weekday (d + 7) = weekday d"
proof -
  have "(d + 7 + 6) mod 7 = (d + 6 + 7) mod 7" by (simp add: ac_simps)
  also have "\<dots> = (d + 6) mod 7" by (rule mod_add_self2)
  finally show ?thesis by (simp only: weekday_def)
qed

text \<open>
  C5. The week of a date is a Monday, at most six days before the date; a session is
  bucketed by the week of its date; the current week is the week of now, by the same
  function; the last week is seven days before the current week, which is the week of the
  date seven days before now.
\<close>

theorem week_is_monday_start:
  "weekday (to_period_W_start_time d) = 0
   \<and> to_period_W_start_time d \<le> d \<and> d < to_period_W_start_time d + 7
   \<and> week r = to_period_W_start_time (date r)
   \<and> current_week now = to_period_W_start_time now
   \<and> last_week now = current_week now - 7
   \<and> last_week now = to_period_W_start_time (now - 7)"
  using start_time_bounds [of d]
  by (simp add: weekday_start_time start_time_shift week_def current_week_def last_week_def)

subsection \<open>Rows of the weekly frame\<close>

lemma sqrt2_bounds: "1.4142 < sqrt 2" "sqrt 2 < 1.4143"
  by (rule real_less_rsqrt, simp add: power2_eq_square)
     (rule real_less_lsqrt, simp_all add: power2_eq_square)

lemma example_weeks:
  "week example_session = 739558"
  "week (example_session\<lparr>date := 739561, distance_m := 2000, rpe := 6\<rparr>) = 739558"
  by (simp_all add: week_def to_period_W_start_time_def weekday_def example_session_def)

lemma weekly_df_example: "weekly_df example_sessions = [example_weekly_row]"
proof -
  have k: "map group_key example_sessions = [(739558, ''A''), (739558, ''A'')]"
    by (simp add: example_sessions_def group_key_def example_weeks) (simp add: example_session_def)
  have f: "filter (\<lambda>r. group_key r = (739558, ''A'')) example_sessions = example_sessions"
    by (simp add: example_sessions_def group_key_def example_weeks) (simp add: example_session_def)
  have s: "std [4, 6] = Some (sqrt 2)"
    by (simp add: std_def Let_def)
  have r: "weekly_row_of (739558, ''A'') example_sessions = example_weekly_row"
    unfolding weekly_row_of_def Let_def
    by (simp add: example_sessions_def example_session_def example_weekly_row_def
        distance_km_def load_def mean_def s fdiv_def fmul_def replace_0_1_def)
  show ?thesis
    unfolding weekly_df_def k by (simp add: f r)
qed

lemma distance_km_fun: "distance_km = (\<lambda>r. real_of_int (distance_m r) / 1000)"
  by (rule ext) (simp add: distance_km_def)

lemma load_fun: "load = (\<lambda>r. real_of_int (distance_m r) / 1000 * real_of_int (rpe r))"
  by (rule ext) (simp add: load_def distance_km_def)

lemma weekly_df_keys:
  "map (\<lambda>w. (wk_week w, wk_swimmer w)) (weekly_df df) = sort (remdups (map group_key df))"
  by (simp add: weekly_df_def weekly_row_of_def Let_def comp_def)

lemma weekly_df_row:
  assumes "w \<in> set (weekly_df df)"
  obtains k where "k \<in> group_key ` set df"
    and "w = weekly_row_of k (filter (\<lambda>r. group_key r = k) df)"
  using assms unfolding weekly_df_def by auto

text \<open>
  C4. The weekly frame has exactly one row for every pair of week and swimmer that occurs
  among the sessions, and no other row. Every row is computed from the sessions of its
  week and swimmer, a non-empty list: the total distance is the sum of
  \<open>distance_m / 1000\<close>, the total load is the sum of \<open>distance_m / 1000 * rpe\<close>,
  the mean RPE is the arithmetic mean, and the
  standard deviation of RPE has the denominator \<open>n - 1\<close> (it is NaN for a single session).
  For the two sessions of swimmer A in one week with 1000 m at RPE 4 and 2000 m at RPE 6,
  the frame has the single row with 3 km, load 16, mean 5, deviation \<open>sqrt 2\<close>, monotony
  \<open>5 / sqrt 2\<close>, close to 3.536, and strain \<open>5 / sqrt 2 * 16\<close>, close to 56.6.
  The values are those of exact arithmetic.
\<close>

theorem weekly_df_aggregates:
  "(\<forall>w \<in> set (weekly_df df).
      (let g = filter (\<lambda>r. week r = wk_week w \<and> swimmer r = wk_swimmer w) df;
           n = length g;
           m = (\<Sum>r\<leftarrow>g. real_of_int (rpe r)) / real n
       in g \<noteq> []
          \<and> total_distance_km w = (\<Sum>r\<leftarrow>g. real_of_int (distance_m r) / 1000)
          \<and> total_load w = (\<Sum>r\<leftarrow>g. real_of_int (distance_m r) / 1000 * real_of_int (rpe r))
          \<and> mean_rpe w = Some m
          \<and> std_rpe w =
              (if n < 2 then None
               else Some (sqrt ((\<Sum>r\<leftarrow>g. (real_of_int (rpe r) - m)\<^sup>2) / real (n - 1))))))
   \<and> weekly_df example_sessions = [example_weekly_row]
   \<and> \<bar>5 / sqrt 2 - 3.536\<bar> < 0.001
   \<and> \<bar>5 / sqrt 2 * 16 - 56.6\<bar> < 0.05
   \<and> set (map (\<lambda>w. (wk_week w, wk_swimmer w)) (weekly_df df)) =
       (\<lambda>r. (week r, swimmer r)) ` set df
   \<and> distinct (map (\<lambda>w. (wk_week w, wk_swimmer w)) (weekly_df df))"
proof (intro conjI ballI)
  fix w assume "w \<in> set (weekly_df df)"
  then obtain k where k: "k \<in> group_key ` set df"
    and w: "w = weekly_row_of k (filter (\<lambda>r. group_key r = k) df)"
    by (rule weekly_df_row)
  define g where "g = filter (\<lambda>r. group_key r = k) df"
  have key: "wk_week w = fst k" "wk_swimmer w = snd k"
    by (simp_all add: w weekly_row_of_def Let_def)
  have g: "filter (\<lambda>r. week r = wk_week w \<and> swimmer r = wk_swimmer w) df = g"
    unfolding g_def key by (rule filter_cong) (auto simp add: group_key_def)
  have ne: "g \<noteq> []"
    using k unfolding g_def by (auto simp add: filter_empty_conv)
  have "total_distance_km w = (\<Sum>r\<leftarrow>g. real_of_int (distance_m r) / 1000)"
    by (simp add: w weekly_row_of_def Let_def g_def distance_km_fun)
  moreover have "total_load w = (\<Sum>r\<leftarrow>g. real_of_int (distance_m r) / 1000 * real_of_int (rpe r))"
    by (simp add: w weekly_row_of_def Let_def g_def load_fun)
  moreover have "mean_rpe w = Some ((\<Sum>r\<leftarrow>g. real_of_int (rpe r)) / real (length g))"
    using ne by (simp add: w weekly_row_of_def Let_def g_def [symmetric] mean_def)
  moreover have "std_rpe w =
      (if length g < 2 then None
       else Some (sqrt ((\<Sum>r\<leftarrow>g. (real_of_int (rpe r) -
               (\<Sum>r\<leftarrow>g. real_of_int (rpe r)) / real (length g))\<^sup>2) / real (length g - 1))))"
    by (simp add: w weekly_row_of_def Let_def g_def [symmetric] std_def comp_def)
  ultimately show "let g = filter (\<lambda>r. week r = wk_week w \<and> swimmer r = wk_swimmer w) df;
           n = length g;
           m = (\<Sum>r\<leftarrow>g. real_of_int (rpe r)) / real n
       in g \<noteq> []
          \<and> total_distance_km w = (\<Sum>r\<leftarrow>g. real_of_int (distance_m r) / 1000)
          \<and> total_load w = (\<Sum>r\<leftarrow>g. real_of_int (distance_m r) / 1000 * real_of_int (rpe r))
          \<and> mean_rpe w = Some m
          \<and> std_rpe w =
              (if n < 2 then None
               else Some (sqrt ((\<Sum>r\<leftarrow>g. (real_of_int (rpe r) - m)\<^sup>2) / real (n - 1))))"
    unfolding g Let_def using ne by simp
next
  show "weekly_df example_sessions = [example_weekly_row]" by (rule weekly_df_example)
next
  have "5 / sqrt 2 = 5 * sqrt 2 / 2"
    by (simp add: field_simps)
  with sqrt2_bounds have b: "3.5355 < 5 / sqrt 2" "5 / sqrt 2 < 3.5358"
    by simp_all
  from b show "\<bar>5 / sqrt 2 - 3.536\<bar> < 0.001" by simp
  from b show "\<bar>5 / sqrt 2 * 16 - 56.6\<bar> < 0.05" by simp
  show "set (map (\<lambda>w. (wk_week w, wk_swimmer w)) (weekly_df df)) =
          (\<lambda>r. (week r, swimmer r)) ` set df"
    unfolding weekly_df_keys by (simp add: group_key_def)
  show "distinct (map (\<lambda>w. (wk_week w, wk_swimmer w)) (weekly_df df))"
    unfolding weekly_df_keys by simp
qed

theorem weekly_df_aggregates_witness:
  "example_weekly_row \<in> set (weekly_df example_sessions)
   \<and> (let g = filter (\<lambda>r. week r = wk_week example_weekly_row
                            \<and> swimmer r = wk_swimmer example_weekly_row) example_sessions;
           n = length g;
           m = (\<Sum>r\<leftarrow>g. real_of_int (rpe r)) / real n
       in g \<noteq> []
          \<and> total_distance_km example_weekly_row = (\<Sum>r\<leftarrow>g. real_of_int (distance_m r) / 1000)
          \<and> total_load example_weekly_row =
              (\<Sum>r\<leftarrow>g. real_of_int (distance_m r) / 1000 * real_of_int (rpe r))
          \<and> mean_rpe example_weekly_row = Some m
          \<and> std_rpe example_weekly_row =
              (if n < 2 then None
               else Some (sqrt ((\<Sum>r\<leftarrow>g. (real_of_int (rpe r) - m)\<^sup>2) / real (n - 1)))))"
proof -
  have ex: "weekly_df example_sessions = [example_weekly_row]"
    using weekly_df_aggregates [of example_sessions] by (rule conjE) (erule conjE)
  then have mem: "example_weekly_row \<in> set (weekly_df example_sessions)" by simp
  from conjunct1 [OF weekly_df_aggregates [of example_sessions]] mem
  show ?thesis by blast
qed

subsection \<open>Monotony of degenerate weeks\<close>

lemma weekly_df_single:
  "weekly_df [r] =
     [\<lparr>wk_week = week r, wk_swimmer = swimmer r,
       total_distance_km = distance_km r, total_load = load r,
       mean_rpe = Some (real_of_int (rpe r)), std_rpe = None,
       monotony = None, strain = None\<rparr>]"
  by (simp add: weekly_df_def weekly_row_of_def group_key_def Let_def mean_def std_def
      replace_0_1_def fdiv_def fmul_def)

lemma monotony_zero_std:
  assumes "w \<in> set (weekly_df df)" and "std_rpe w = Some 0"
  shows "monotony w = mean_rpe w"
proof -
  from assms(1) obtain k where k: "k \<in> group_key ` set df"
    and w: "w = weekly_row_of k (filter (\<lambda>r. group_key r = k) df)"
    by (rule weekly_df_row)
  define g where "g = filter (\<lambda>r. group_key r = k) df"
  have g: "g \<noteq> []"
    using k unfolding g_def by (auto simp add: filter_empty_conv)
  from assms(2) have "std (map (\<lambda>r. real_of_int (rpe r)) g) = Some 0"
    by (simp add: w weekly_row_of_def Let_def g_def)
  then show ?thesis
    using g by (simp add: w weekly_row_of_def Let_def replace_0_1_def fdiv_def mean_def
        g_def [symmetric])
qed

text \<open>
  C1. A week with a single session: the standard deviation of its RPE is NaN, not zero,
  so the replacement of zero by one does not apply, and monotony and strain are NaN while
  the mean RPE is 4. The monotony of the row differs from its mean RPE.
\<close>

theorem single_session_monotony_is_nan:
  "weekly_df [example_session] =
     [\<lparr>wk_week = 739558, wk_swimmer = ''A'', total_distance_km = 1, total_load = 4,
       mean_rpe = Some 4, std_rpe = None, monotony = None, strain = None\<rparr>]
   \<and> monotony (hd (weekly_df [example_session])) \<noteq> mean_rpe (hd (weekly_df [example_session]))"
proof -
  have "week example_session = 739558"
    by (simp add: week_def to_period_W_start_time_def weekday_def example_session_def)
  moreover have "distance_km example_session = 1" "load example_session = 4"
    "swimmer example_session = ''A''" "rpe example_session = 4"
    by (simp_all add: distance_km_def load_def example_session_def)
  ultimately show ?thesis by (simp add: weekly_df_single)
qed

subsection \<open>Binary64 totals of whole kilometres\<close>

text \<open>
  A whole number up to \<open>2 ^ 53\<close> is a binary64 number, so sums of whole kilometres are
  exact: the compensation term stays zero and the binary64 total of every group is the
  total of the exact frame.
\<close>

lemma round_half_even_of_int: "round_half_even (of_int m) = m"
  by (simp add: round_half_even_def Let_def)

lemma round_half_even_numeral: "round_half_even (numeral w) = numeral w"
  using round_half_even_of_int [of "numeral w"] by simp

lemma b64_of_int:
  assumes "0 \<le> n" and "n \<le> 2 ^ 53"
  shows "b64 (of_int n) = of_int n"
proof (cases "n = 0")
  case True
  then show ?thesis by (simp add: b64_def)
next
  case False
  with assms have n: "1 \<le> n" by simp
  define e where "e = bitlen n - 1"
  have "\<bar>real_of_int n\<bar> = real_of_int n" using n by simp
  moreover have "1 \<le> real_of_int n" using n by simp
  ultimately have be: "binade (of_int n) = e"
    unfolding binade_def e_def by simp
  have "n < 2 ^ 54" using assms(2) by simp
  then have "bitlen n \<le> 54" by (simp add: bitlen_le_iff_power)
  then have e_le: "e \<le> 53" by (simp add: e_def)
  have nz: "of_int n \<noteq> (0::real)" using n by simp
  show ?thesis
  proof (cases "52 \<le> e")
    case True
    then have "e = 52 \<or> e = 53" using e_le by auto
    then show ?thesis
    proof
      assume "e = 52"
      then show ?thesis
        using nz by (simp add: b64_def be pow2_def Let_def round_half_even_of_int)
    next
      assume e: "e = 53"
      then have "54 \<le> bitlen n" by (simp add: e_def)
      then have "2 ^ 53 \<le> n" by (simp add: bitlen_ge_iff_power)
      with assms(2) have n53: "n = 2 ^ 53" by simp
      have r: "round_half_even (real_of_int n / 2) = 2 ^ 52"
        unfolding n53 by (simp add: round_half_even_numeral)
      have "b64 (of_int n) = of_int (round_half_even (real_of_int n / 2)) * 2"
        using nz by (simp add: b64_def be e pow2_def Let_def)
      also have "\<dots> = of_int (2 ^ 52) * 2" by (simp only: r)
      also have "\<dots> = of_int n" unfolding n53 by simp
      finally show ?thesis .
    qed
  next
    case False
    define k where "k = nat (52 - e)"
    have u: "pow2 (e - 52) = 1 / 2 ^ k"
      using False by (simp add: pow2_def k_def)
    have "real_of_int n / (1 / 2 ^ k) = of_int (n * 2 ^ k)" by simp
    then have "round_half_even (real_of_int n / (1 / 2 ^ k)) = n * 2 ^ k"
      by (simp only: round_half_even_of_int)
    then show ?thesis
      using nz by (simp add: b64_def be u Let_def)
  qed
qed

lemma distance_km_f64_whole:
  assumes "0 \<le> k" and "1000 * k \<le> 2 ^ 53" and "distance_m r = 1000 * k"
  shows "distance_km_f64 r = of_int k"
proof -
  have "b64 (real_of_int (1000 * k)) = real_of_int (1000 * k)"
    using assms(1,2) by (intro b64_of_int) simp_all
  moreover have "b64 (real_of_int k) = real_of_int k"
    using assms(1,2) by (intro b64_of_int) simp_all
  ultimately show ?thesis
    by (simp add: distance_km_f64_def assms(3))
qed

lemma group_sum_loop_ints:
  assumes "\<forall>k \<in> set ks. 0 \<le> k" and "0 \<le> s" and "s + sum_list ks \<le> 2 ^ 53"
  shows "group_sum_loop (of_int s) 0 (map of_int ks) = of_int (s + sum_list ks)"
  using assms
proof (induction ks arbitrary: s)
  case Nil
  then show ?case by simp
next
  case (Cons k ks)
  have k: "0 \<le> k" using Cons.prems(1) by simp
  have rest: "0 \<le> sum_list ks" using Cons.prems(1) by (intro sum_list_nonneg) simp
  have y: "b64 (real_of_int k) = real_of_int k"
    using k rest Cons.prems by (intro b64_of_int) simp_all
  have "b64 (real_of_int (s + k)) = real_of_int (s + k)"
    using k rest Cons.prems by (intro b64_of_int) simp_all
  then have t: "b64 (real_of_int s + real_of_int k) = real_of_int (s + k)" by simp
  have "real_of_int (s + k) - real_of_int s = real_of_int k" by simp
  then have "b64 (b64 (real_of_int (s + k) - real_of_int s) - real_of_int k) =
             b64 (b64 (real_of_int k) - real_of_int k)"
    by (simp only:)
  also have "\<dots> = 0" unfolding y by (simp add: b64_def)
  finally have c: "b64 (b64 (real_of_int (s + k) - real_of_int s) - real_of_int k) = 0" .
  have "group_sum_loop (of_int s) 0 (map of_int (k # ks)) =
        group_sum_loop (of_int (s + k)) 0 (map of_int ks)"
    by (simp add: Let_def y t c del: of_int_add)
  also have "\<dots> = of_int (s + k + sum_list ks)"
    using Cons.prems k by (intro Cons.IH) (simp_all add: add.assoc)
  finally show ?case by (simp add: add.assoc)
qed


lemma sum_list_filter_le:
  fixes f :: "'a \<Rightarrow> int"
  assumes "\<forall>x \<in> set xs. 0 \<le> f x"
  shows "sum_list (map f (filter P xs)) \<le> sum_list (map f xs)"
  using assms by (induction xs) (auto simp add: add_increasing)

lemma member_le_sum_list_int:
  fixes f :: "'a \<Rightarrow> int"
  assumes "\<forall>x \<in> set xs. 0 \<le> f x" and "x \<in> set xs"
  shows "f x \<le> sum_list (map f xs)"
  using assms
proof (induction xs)
  case Nil
  then show ?case by simp
next
  case (Cons y ys)
  have "0 \<le> sum_list (map f ys)"
    using Cons.prems(1) by (intro sum_list_nonneg) auto
  with Cons show ?case by auto
qed

lemma group_sum_whole_km:
  assumes "whole_km g"
  shows "group_sum (map distance_km_f64 g) = sum_list (map distance_km g)"
proof -
  have nn: "\<forall>r \<in> set g. 0 \<le> distance_m r" and dv: "\<forall>r \<in> set g. distance_m r mod 1000 = 0"
    and bound: "sum_list (map distance_m g) \<le> 2 ^ 53"
    using assms by (auto simp add: whole_km_def list_all_iff)
  define ks where "ks = map (\<lambda>r. distance_m r div 1000) g"
  have m: "distance_m r = 1000 * (distance_m r div 1000)" if "r \<in> set g" for r
    using dv that by auto
  have total: "sum_list (map distance_m g) = 1000 * sum_list ks"
  proof -
    have "map distance_m g = map (\<lambda>r. 1000 * (distance_m r div 1000)) g"
      using m by (intro map_cong) auto
    then have "sum_list (map distance_m g) = (\<Sum>r\<leftarrow>g. 1000 * (distance_m r div 1000))"
      by (simp only:)
    also have "\<dots> = 1000 * (\<Sum>r\<leftarrow>g. distance_m r div 1000)"
      by (rule sum_list_const_mult)
    finally show ?thesis by (simp add: ks_def comp_def)
  qed
  have f64: "distance_km_f64 r = of_int (distance_m r div 1000)" if "r \<in> set g" for r
  proof (rule distance_km_f64_whole)
    show "0 \<le> distance_m r div 1000" using nn that by (simp add: pos_imp_zdiv_nonneg_iff)
    have "distance_m r \<le> sum_list (map distance_m g)"
      using nn that by (rule member_le_sum_list_int)
    with bound m [OF that] show "1000 * (distance_m r div 1000) \<le> 2 ^ 53" by simp
    show "distance_m r = 1000 * (distance_m r div 1000)" using that by (rule m)
  qed
  have "map distance_km_f64 g = map of_int ks"
    unfolding ks_def map_map comp_def using f64 by (intro map_cong) auto
  then have "group_sum (map distance_km_f64 g) = group_sum_loop (of_int 0) 0 (map of_int ks)"
    by (simp add: group_sum_def)
  also have "\<dots> = of_int (0 + sum_list ks)"
  proof (rule group_sum_loop_ints)
    show "\<forall>k \<in> set ks. 0 \<le> k"
      using nn by (auto simp add: ks_def pos_imp_zdiv_nonneg_iff)
    show "(0::int) \<le> 0" by simp
    have "0 \<le> sum_list ks"
      using nn by (intro sum_list_nonneg) (auto simp add: ks_def pos_imp_zdiv_nonneg_iff)
    with bound total show "0 + sum_list ks \<le> 2 ^ 53" by simp
  qed
  also have "\<dots> = real_of_int (sum_list (map distance_m g)) / 1000"
    by (simp add: total)
  also have "\<dots> = sum_list (map distance_km g)"
    by (induction g) (simp_all add: distance_km_def add_divide_distrib)
  finally show ?thesis .
qed

lemma whole_km_filter:
  assumes "whole_km df"
  shows "whole_km (filter P df)"
proof -
  have nn: "\<forall>r \<in> set df. 0 \<le> distance_m r"
    using assms by (auto simp add: whole_km_def list_all_iff)
  have "sum_list (map distance_m (filter P df)) \<le> sum_list (map distance_m df)"
    using nn by (rule sum_list_filter_le)
  with assms show ?thesis
    by (auto simp add: whole_km_def list_all_iff)
qed

lemma total_distance_km_f64_whole_km:
  assumes "whole_km df"
  shows "total_distance_km_f64 df =
           map (\<lambda>w. ((wk_week w, wk_swimmer w), total_distance_km w)) (weekly_df df)"
proof -
  have "group_sum (map distance_km_f64 (filter (\<lambda>r. group_key r = k) df)) =
        sum_list (map distance_km (filter (\<lambda>r. group_key r = k) df))" for k
    using assms by (intro group_sum_whole_km whole_km_filter)
  then show ?thesis
    by (simp add: total_distance_km_f64_def weekly_df_def weekly_row_of_def Let_def comp_def)
qed

lemma whole_km_example: "whole_km example_sessions"
  by (simp add: whole_km_def example_sessions_def example_session_def)

lemma b64_total_whole_km:
  assumes "whole_km df"
  shows "b64 (b64 (real_of_int (sum_list (map distance_m df))) / 1000) =
           real_of_int (sum_list (map distance_m df)) / 1000"
proof -
  define S where "S = sum_list (map distance_m df)"
  have nn: "\<forall>r \<in> set df. 0 \<le> distance_m r" and dv: "\<forall>r \<in> set df. distance_m r mod 1000 = 0"
    and bound: "S \<le> 2 ^ 53"
    using assms by (auto simp add: whole_km_def list_all_iff S_def)
  have "map distance_m df = map (\<lambda>r. 1000 * (distance_m r div 1000)) df"
    using dv by (intro map_cong) auto
  then have "S = (\<Sum>r\<leftarrow>df. 1000 * (distance_m r div 1000))"
    unfolding S_def by (simp only:)
  also have "\<dots> = 1000 * (\<Sum>r\<leftarrow>df. distance_m r div 1000)"
    by (rule sum_list_const_mult)
  finally have S: "S = 1000 * (\<Sum>r\<leftarrow>df. distance_m r div 1000)" .
  have k: "0 \<le> (\<Sum>r\<leftarrow>df. distance_m r div 1000)"
    using nn by (intro sum_list_nonneg) (auto simp add: pos_imp_zdiv_nonneg_iff)
  have "b64 (real_of_int (1000 * (\<Sum>r\<leftarrow>df. distance_m r div 1000))) =
        real_of_int (1000 * (\<Sum>r\<leftarrow>df. distance_m r div 1000))"
    using k bound S by (intro b64_of_int) simp_all
  moreover have "b64 (real_of_int (\<Sum>r\<leftarrow>df. distance_m r div 1000)) =
        real_of_int (\<Sum>r\<leftarrow>df. distance_m r div 1000)"
    using k bound S by (intro b64_of_int) simp_all
  ultimately show ?thesis
    unfolding S_def [symmetric] S by simp
qed

subsection \<open>Order of the sessions\<close>

lemma sum_list_mset_cong:
  fixes f :: "'a \<Rightarrow> 'b::comm_monoid_add"
  assumes "mset xs = mset ys"
  shows "sum_list (map f xs) = sum_list (map f ys)"
proof -
  have "sum_list (map f xs) = sum_mset (image_mset f (mset xs))"
    by (metis mset_map sum_mset_sum_list)
  also have "\<dots> = sum_mset (image_mset f (mset ys))" using assms by simp
  also have "\<dots> = sum_list (map f ys)"
    by (metis mset_map sum_mset_sum_list)
  finally show ?thesis .
qed

lemma weekly_row_of_mset_cong:
  assumes "mset g = mset g'"
  shows "weekly_row_of k g = weekly_row_of k g'"
proof -
  have len: "length g = length g'" using assms by (rule mset_eq_length)
  have s: "sum_list (map f g) = sum_list (map f g')" for f :: "session_data \<Rightarrow> real"
    using assms by (rule sum_list_mset_cong)
  have nil: "g = [] \<longleftrightarrow> g' = []" using len by auto
  have m: "mean (map (\<lambda>r. real_of_int (rpe r)) g) = mean (map (\<lambda>r. real_of_int (rpe r)) g')"
    by (simp add: mean_def s len nil)
  have d: "std (map (\<lambda>r. real_of_int (rpe r)) g) = std (map (\<lambda>r. real_of_int (rpe r)) g')"
    by (simp add: std_def Let_def comp_def s len)
  show ?thesis
    unfolding weekly_row_of_def Let_def m d s [of distance_km] s [of load] ..
qed

lemma whole_km_mset_cong:
  assumes "mset df = mset df'" and "whole_km df"
  shows "whole_km df'"
proof -
  have "set df = set df'" using assms(1) by (rule mset_eq_setD)
  moreover have "sum_list (map distance_m df) = sum_list (map distance_m df')"
    using assms(1) by (rule sum_list_mset_cong)
  ultimately show ?thesis using assms(2) by (simp add: whole_km_def list_all_iff)
qed

lemma group_keys_mset_cong:
  assumes "mset df = mset df'"
  shows "sort (remdups (map group_key df)) = sort (remdups (map group_key df'))"
proof -
  have "set (map group_key df) = set (map group_key df')"
    using assms by (metis mset_map set_mset_mset)
  then have "set (sort (remdups (map group_key df))) = set (sort (remdups (map group_key df')))"
    by simp
  then show ?thesis
    by (intro sorted_distinct_set_unique) simp_all
qed

lemma frame_order_independent:
  assumes "mset df = mset df'"
  shows "weekly_df df = weekly_df df'"
proof -
  have "weekly_row_of k (filter (\<lambda>r. group_key r = k) df) =
        weekly_row_of k (filter (\<lambda>r. group_key r = k) df')" for k
    using assms by (intro weekly_row_of_mset_cong) (simp add: mset_filter)
  then show ?thesis
    unfolding weekly_df_def group_keys_mset_cong [OF assms] by simp
qed

lemma total_distance_km_f64_keys:
  "map fst (total_distance_km_f64 df) = sort (remdups (map group_key df))"
  by (simp add: total_distance_km_f64_def comp_def)

text \<open>
  The binary64 totals of 600 m, 600 m and 100 m in the two orders, 1.3 and
  1.2999999999999998, and of 100 m and 200 m, 0.30000000000000004. The compensation term
  does not change them: the sums without it are the same.
\<close>

lemma total_600_600_100:
  "total_distance_km_f64 sessions_600_600_100 =
     [((739558, ''A''), 5854679515581645 / 4503599627370496)]"
  by code_simp

lemma total_100_600_600:
  "total_distance_km_f64 sessions_100_600_600 =
     [((739558, ''A''), 1463669878895411 / 1125899906842624)]"
  by code_simp

lemma total_100_200:
  "total_distance_km_f64 sessions_100_200 =
     [((739558, ''A''), 1351079888211149 / 4503599627370496)]"
  by code_simp

lemma plain_sums:
  "plain_sum (map distance_km_f64 sessions_600_600_100) = 5854679515581645 / 4503599627370496"
  "plain_sum (map distance_km_f64 sessions_100_600_600) = 1463669878895411 / 1125899906842624"
  "plain_sum (map distance_km_f64 sessions_100_200) = 1351079888211149 / 4503599627370496"
  by code_simp+

text \<open>
  C6, as the code has it. Two session lists with the same rows in any order give the same
  groups in the same order, and the same weekly frame in exact arithmetic: the same values
  in every column. In binary64 the groups and their order are the same as well, and so
  are the distance totals when the distances are whole kilometres.
\<close>

theorem weekly_df_order_independent:
  assumes "mset df = mset df'"
  shows "weekly_df df = weekly_df df'
       \<and> map fst (total_distance_km_f64 df) = map fst (total_distance_km_f64 df')
       \<and> (whole_km df \<longrightarrow> total_distance_km_f64 df = total_distance_km_f64 df')"
proof (intro conjI impI)
  show frame: "weekly_df df = weekly_df df'"
    using assms by (rule frame_order_independent)
  show "map fst (total_distance_km_f64 df) = map fst (total_distance_km_f64 df')"
    unfolding total_distance_km_f64_keys using assms by (rule group_keys_mset_cong)
  assume w: "whole_km df"
  with assms have w': "whole_km df'" by (rule whole_km_mset_cong)
  show "total_distance_km_f64 df = total_distance_km_f64 df'"
    unfolding total_distance_km_f64_whole_km [OF w] total_distance_km_f64_whole_km [OF w'] frame ..
qed

theorem weekly_df_order_independent_witness:
  "mset example_sessions = mset (rev example_sessions)
   \<and> whole_km example_sessions
   \<and> weekly_df example_sessions = weekly_df (rev example_sessions)
   \<and> map fst (total_distance_km_f64 example_sessions) =
       map fst (total_distance_km_f64 (rev example_sessions))
   \<and> total_distance_km_f64 example_sessions = total_distance_km_f64 (rev example_sessions)"
  using weekly_df_order_independent [of example_sessions "rev example_sessions"]
    whole_km_example
  by simp

text \<open>
  C6, as stated, fails in binary64: the sessions of 600 m, 600 m and 100 m of one swimmer
  in one week give the total distance 1.3 km, and the same sessions in the order 100 m,
  600 m, 600 m give 1.2999999999999998 km.
\<close>

theorem weekly_df_order_dependent_counterexample:
  "mset sessions_600_600_100 = mset sessions_100_600_600
   \<and> total_distance_km_f64 sessions_600_600_100 =
       [((739558, ''A''), 5854679515581645 / 4503599627370496)]
   \<and> total_distance_km_f64 sessions_100_600_600 =
       [((739558, ''A''), 1463669878895411 / 1125899906842624)]
   \<and> total_distance_km_f64 sessions_600_600_100 \<noteq> total_distance_km_f64 sessions_100_600_600
   \<and> plain_sum (map distance_km_f64 sessions_600_600_100) \<noteq>
       plain_sum (map distance_km_f64 sessions_100_600_600)"
  unfolding total_600_600_100 total_100_600_600 plain_sums
  by (simp add: sessions_600_600_100_def sessions_100_600_600_def)

subsection \<open>Conservation of distance\<close>

lemma sum_list_indicator:
  fixes v :: real
  assumes "distinct ks" and "a \<in> set ks"
  shows "(\<Sum>k\<leftarrow>ks. if a = k then v else 0) = v"
proof -
  have "(\<Sum>k\<leftarrow>ks. if a = k then v else 0) = (\<Sum>k\<in>set ks. if a = k then v else 0)"
    using assms(1) by (rule sum_list_distinct_conv_sum_set)
  also have "\<dots> = v" using assms(2) by simp
  finally show ?thesis .
qed

lemma sum_list_by_key:
  fixes f :: "'a \<Rightarrow> real"
  assumes "distinct ks" and "key ` set xs \<subseteq> set ks"
  shows "(\<Sum>k\<leftarrow>ks. \<Sum>x\<leftarrow>filter (\<lambda>x. key x = k) xs. f x) = (\<Sum>x\<leftarrow>xs. f x)"
  using assms(2)
proof (induction xs)
  case Nil
  then show ?case by simp
next
  case (Cons x xs)
  have split: "(\<Sum>y\<leftarrow>filter (\<lambda>y. key y = k) (x # xs). f y) =
        (if key x = k then f x else 0) + (\<Sum>y\<leftarrow>filter (\<lambda>y. key y = k) xs. f y)" for k
    by simp
  have "(\<Sum>k\<leftarrow>ks. \<Sum>y\<leftarrow>filter (\<lambda>y. key y = k) (x # xs). f y) =
        (\<Sum>k\<leftarrow>ks. if key x = k then f x else 0)
        + (\<Sum>k\<leftarrow>ks. \<Sum>y\<leftarrow>filter (\<lambda>y. key y = k) xs. f y)"
    unfolding split by (rule sum_list_addf)
  also have "(\<Sum>k\<leftarrow>ks. if key x = k then f x else 0) = f x"
    using assms(1) Cons.prems by (intro sum_list_indicator) auto
  also have "(\<Sum>k\<leftarrow>ks. \<Sum>y\<leftarrow>filter (\<lambda>y. key y = k) xs. f y) = (\<Sum>y\<leftarrow>xs. f y)"
    using Cons.prems by (intro Cons.IH) auto
  finally show ?case by simp
qed

lemma total_distance_km_row [simp]:
  "total_distance_km (weekly_row_of k g) = sum_list (map distance_km g)"
  by (simp add: weekly_row_of_def Let_def)

lemma sum_list_distance_km:
  "sum_list (map distance_km df) = real_of_int (sum_list (map distance_m df)) / 1000"
  by (induction df) (simp_all add: distance_km_def add_divide_distrib)

lemma exact_total_distance:
  "sum_list (map total_distance_km (weekly_df df)) =
     real_of_int (sum_list (map distance_m df)) / 1000"
proof -
  let ?ks = "sort (remdups (map group_key df))"
  have "sum_list (map total_distance_km (weekly_df df)) =
          (\<Sum>k\<leftarrow>?ks. \<Sum>r\<leftarrow>filter (\<lambda>r. group_key r = k) df. distance_km r)"
    by (simp add: weekly_df_def comp_def)
  also have "\<dots> = (\<Sum>r\<leftarrow>df. distance_km r)"
    by (rule sum_list_by_key) simp_all
  finally show ?thesis by (simp add: sum_list_distance_km)
qed

text \<open>
  C7, as the code has it. In exact arithmetic the total distances of all rows of the
  weekly frame add up to the sum of \<open>distance_m\<close> over all sessions, divided by 1000. In
  binary64 this holds when the distances are whole kilometres: the total of every group
  is then the exact one, and their sum is the binary64 quotient of the summed metres by
  1000.
\<close>

theorem total_distance_conserved:
  "sum_list (map total_distance_km (weekly_df df)) =
     real_of_int (sum_list (map distance_m df)) / 1000
   \<and> (whole_km df \<longrightarrow>
        map snd (total_distance_km_f64 df) = map total_distance_km (weekly_df df)
        \<and> sum_list (map snd (total_distance_km_f64 df)) =
            b64 (b64 (real_of_int (sum_list (map distance_m df))) / 1000))"
proof (intro conjI impI)
  show "sum_list (map total_distance_km (weekly_df df)) =
          real_of_int (sum_list (map distance_m df)) / 1000"
    by (rule exact_total_distance)
  assume w: "whole_km df"
  show rows: "map snd (total_distance_km_f64 df) = map total_distance_km (weekly_df df)"
    unfolding total_distance_km_f64_whole_km [OF w] by (simp add: comp_def)
  show "sum_list (map snd (total_distance_km_f64 df)) =
          b64 (b64 (real_of_int (sum_list (map distance_m df))) / 1000)"
    unfolding rows b64_total_whole_km [OF w] by (rule exact_total_distance)
qed

theorem total_distance_conserved_witness:
  "whole_km example_sessions
   \<and> map snd (total_distance_km_f64 example_sessions) =
       map total_distance_km (weekly_df example_sessions)
   \<and> sum_list (map snd (total_distance_km_f64 example_sessions)) =
       b64 (b64 (real_of_int (sum_list (map distance_m example_sessions))) / 1000)"
  using conjunct2 [OF total_distance_conserved [of example_sessions]] whole_km_example
  by blast

text \<open>
  C7, as stated, fails in binary64: for sessions of 100 m and 200 m of one swimmer in one
  week the only row has the total distance 0.30000000000000004 km, and the summed metres
  divided by 1000 are 0.3.
\<close>

theorem total_distance_rounding_counterexample:
  "map snd (total_distance_km_f64 sessions_100_200) = [1351079888211149 / 4503599627370496]
   \<and> b64 (b64 (real_of_int (sum_list (map distance_m sessions_100_200))) / 1000) =
       5404319552844595 / 18014398509481984
   \<and> sum_list (map snd (total_distance_km_f64 sessions_100_200)) \<noteq>
       b64 (b64 (real_of_int (sum_list (map distance_m sessions_100_200))) / 1000)"
proof -
  have q: "b64 (b64 (real_of_int (sum_list (map distance_m sessions_100_200))) / 1000) =
       5404319552844595 / 18014398509481984"
    by code_simp
  show ?thesis unfolding q total_100_200 by simp
qed

section \<open>The next training session lookup\<close>

lemma all_no_trainingD:
  assumes "all_no_training sched" and "d < 7"
  obtains desc where "sched d = Some desc" and "str_contains ''No training'' desc"
proof -
  from assms have "case sched d of None \<Rightarrow> False
                   | Some desc \<Rightarrow> str_contains ''No training'' desc"
    unfolding all_no_training_def list_all_iff by simp
  then show thesis by (cases "sched d") (auto intro: that)
qed

lemma find_next_all_off:
  "all_no_training sched \<Longrightarrow>
     find_next_training_day sched cd nd k =
       Inr (if k < 7 then (cd + 6) mod 7 else nd, if k < 7 then 7 else k)"
proof (induction sched cd nd k rule: find_next_training_day.induct)
  case (1 sched current_day next_day days_ahead)
  show ?case
  proof (cases "days_ahead < 7")
    case False
    then show ?thesis by (subst find_next_training_day.simps) simp
  next
    case True
    let ?nd = "(current_day + days_ahead) mod 7"
    obtain desc where d: "sched ?nd = Some desc"
      and c: "str_contains ''No training'' desc"
      using "1.prems" by (rule all_no_trainingD [of sched ?nd]) simp
    have step: "find_next_training_day sched current_day next_day days_ahead =
                find_next_training_day sched current_day ?nd (days_ahead + 1)"
      using True d c by (subst find_next_training_day.simps) (simp add: Let_def)
    have ih: "find_next_training_day sched current_day ?nd (days_ahead + 1) =
        Inr (if days_ahead + 1 < 7 then (current_day + 6) mod 7 else ?nd,
             if days_ahead + 1 < 7 then 7 else days_ahead + 1)"
      using True d c "1.prems" by (intro "1.IH") simp_all
    show ?thesis
    proof (cases "days_ahead + 1 < 7")
      case True
      with step ih show ?thesis by simp
    next
      case False
      with True have "days_ahead = 6" by simp
      with step ih show ?thesis by simp
    qed
  qed
qed

text \<open>
  For a schedule with each of the seven days marked "No training", the scan ends after
  seven days with \<open>days_ahead = 7\<close> at the day before today's day of the week, and the
  lookup returns the date seven days after today with the description of that last day,
  its day name replaced by today's.
\<close>

lemma next_training_session_all_off:
  assumes "all_no_training sched"
  shows "find_next_training_day sched (weekday today) (weekday today) 0 =
           Inr ((weekday today + 6) mod 7, 7)
       \<and> (\<exists>desc. sched ((weekday today + 6) mod 7) = Some desc
                 \<and> str_contains ''No training'' desc
                 \<and> next_training_session sched today =
                     Inr (today + 7, session_info desc (strftime_A today)))"
proof -
  have scan: "find_next_training_day sched (weekday today) (weekday today) 0 =
           Inr ((weekday today + 6) mod 7, 7)"
    using assms by (simp add: find_next_all_off)
  obtain desc where d: "sched ((weekday today + 6) mod 7) = Some desc"
    and c: "str_contains ''No training'' desc"
    using assms by (rule all_no_trainingD [of sched "(weekday today + 6) mod 7"]) simp
  have "next_training_session sched today =
          Inr (today + 7, session_info desc (strftime_A today))"
    unfolding next_training_session_def Let_def scan
    by (simp add: d strftime_A_def weekday_plus_7)
  with scan d c show ?thesis by blast
qed

text \<open>
  The schedule written in the program has training days, so the scan never runs through
  all seven days there.
\<close>

lemma training_schedule_has_training: "\<not> all_no_training training_schedule"
  unfolding all_no_training_def training_schedule_def
  by (simp add: upt_rec)

lemma no_training_schedule_all_off: "all_no_training no_training_schedule"
  unfolding all_no_training_def no_training_schedule_def
  by (simp add: upt_rec)

lemma next_training_session_all_off_tuesday:
  "next_training_session no_training_schedule 739559 = Inr (739566, ''Tuesday - No training'')"
  by (simp add: next_training_session_def no_training_schedule_def weekday_def Let_def
      session_info_def strftime_A_def find_next_training_day.simps)

end
